theory Spec2Isabelle
  imports Complex_Main "HOL-Library.Word"
begin

unbundle bit_operations_syntax

section \<open>JavaScript numbers, values and integer operators\<close>

text \<open>
  A JavaScript number is an IEEE-754 double. A finite double is kept as the real number
  it denotes (negative zero is identified with zero); the three non-finite values are
  constructors of their own. Register words, rule indices and every integer the decoder
  computes lie far below \<open>2^53\<close>, where doubles are exact, so integers are kept as
  \<open>int\<close>. A register array is an \<open>int list\<close>; a claim about 16-bit words states the
  range \<open>[0, 65535]\<close> as a hypothesis.
\<close>

datatype js_number = Num real | NaN | PosInf | NegInf

datatype js_value = JUndefined | JNull | JBool bool | JNum js_number | JArr "int list"

definition js_int :: "int \<Rightarrow> js_value" where
  "js_int i = JNum (Num (of_int i))"

text \<open>
  The operators \<open>&\<close>, \<open>|\<close>, \<open><<\<close>, \<open>>>\<close> reduce their operands to 32 bits, work on
  32-bit words and give the signed reading of the result; a shift count is taken modulo
  32; \<open>x >>> 0\<close> is the unsigned reading (ToUint32).
\<close>

definition ToUint32 :: "int \<Rightarrow> int" where
  "ToUint32 x = uint (word_of_int x :: 32 word)"

definition js_and :: "int \<Rightarrow> int \<Rightarrow> int" where
  "js_and a b = sint ((word_of_int a :: 32 word) AND word_of_int b)"

definition js_or :: "int \<Rightarrow> int \<Rightarrow> int" where
  "js_or a b = sint ((word_of_int a :: 32 word) OR word_of_int b)"

definition js_shl :: "int \<Rightarrow> int \<Rightarrow> int" where
  "js_shl a n = sint (push_bit (nat (n mod 32)) (word_of_int a :: 32 word))"

definition js_sar :: "int \<Rightarrow> int \<Rightarrow> int" where
  "js_sar a n = sint (signed_drop_bit (nat (n mod 32)) (word_of_int a :: 32 word))"

text \<open>
  Reading an array beyond its end gives \<open>undefined\<close> (\<open>None\<close>). Under a bitwise
  operator and in \<open>DataView.setUint16\<close>, \<open>undefined\<close> becomes NaN and then 0.
\<close>

definition js_index :: "'a list \<Rightarrow> nat \<Rightarrow> 'a option" where
  "js_index xs i = (if i < length xs then Some (xs ! i) else None)"

definition int_of_reg :: "int option \<Rightarrow> int" where
  "int_of_reg r = (case r of None \<Rightarrow> 0 | Some x \<Rightarrow> x)"

section \<open>DataConversionUtils: the integer decoders\<close>

text \<open>convertInt16: \<open>undefined > 32767\<close> is false, so \<open>undefined\<close> is returned as it is.\<close>

definition convertInt16 :: "int option \<Rightarrow> string \<Rightarrow> js_value" where
  "convertInt16 register byteOrder =
     (case register of
        None \<Rightarrow> JUndefined
      | Some r \<Rightarrow> if r > 32767 then js_int (r - 65536) else js_int r)"

definition convertUint16 :: "int option \<Rightarrow> string \<Rightarrow> int" where
  "convertUint16 register byteOrder = js_and (int_of_reg register) 0xFFFF"

text \<open>The parameter \<open>wordSwap: boolean = false\<close>: an absent argument is \<open>False\<close>.\<close>

definition wordSwap_default :: "bool option \<Rightarrow> bool" where
  "wordSwap_default ws = (case ws of None \<Rightarrow> False | Some b \<Rightarrow> b)"

definition convertInt32 :: "int list \<Rightarrow> string \<Rightarrow> bool option \<Rightarrow> int" where
  "convertInt32 registers byteOrder ws =
     (let wordSwap = wordSwap_default ws;
          reg0 = int_of_reg (if wordSwap then js_index registers 1 else js_index registers 0);
          reg1 = int_of_reg (if wordSwap then js_index registers 0 else js_index registers 1);
          v = (if byteOrder = ''big_endian''
               then js_or (js_shl reg0 16) reg1
               else js_or (js_shl reg1 16) reg0)
      in if v > 2147483647 then v - 4294967296 else v)"

definition convertUint32 :: "int list \<Rightarrow> string \<Rightarrow> bool option \<Rightarrow> int" where
  "convertUint32 registers byteOrder ws =
     (let wordSwap = wordSwap_default ws;
          reg0 = int_of_reg (if wordSwap then js_index registers 1 else js_index registers 0);
          reg1 = int_of_reg (if wordSwap then js_index registers 0 else js_index registers 1)
      in if byteOrder = ''big_endian''
         then ToUint32 (js_or (js_shl reg0 16) reg1)
         else ToUint32 (js_or (js_shl reg1 16) reg0))"

definition convertBCD :: "int option \<Rightarrow> string \<Rightarrow> int" where
  "convertBCD register byteOrder =
     (let r = int_of_reg register;
          high = js_and (js_sar r 8) 0xFF;
          low = js_and r 0xFF;
          highDecimal = js_and (js_sar high 4) 0x0F * 10 + js_and high 0x0F;
          lowDecimal = js_and (js_sar low 4) 0x0F * 10 + js_and low 0x0F
      in highDecimal * 100 + lowDecimal)"

text \<open>
  The BCD rule in the words of the specification: a byte's two nibbles are decimal
  digits, and the high byte counts hundreds.
\<close>

definition bcd_byte_spec :: "int \<Rightarrow> int" where
  "bcd_byte_spec b = (b div 16) * 10 + b mod 16"

definition bcd_spec :: "int \<Rightarrow> int" where
  "bcd_spec w = bcd_byte_spec (w div 256) * 100 + bcd_byte_spec (w mod 256)"


text \<open>
  The 32-bit assembly in the words of the specification: word swap chooses the first
  word, byte order chooses which of the two is the high half.
\<close>

definition raw32_spec :: "int \<Rightarrow> int \<Rightarrow> string \<Rightarrow> bool \<Rightarrow> int" where
  "raw32_spec w0 w1 order swap =
     (let first = (if swap then w1 else w0);
          second = (if swap then w0 else w1);
          high = (if order = ''big_endian'' then first else second);
          low = (if order = ''big_endian'' then second else first)
      in high * 65536 + low)"

section \<open>DataConversionUtils.convertFloat32\<close>

text \<open>
  \<open>DataView.getFloat32\<close> reads four bytes, big-endian, as an IEEE-754 single: one sign
  bit, eight exponent bits, 23 fraction bits. Every single is exactly a double, so the
  decoded value is exact: \<open>(2^23 + m) * 2^(e - 150)\<close> for a normal number, \<open>m * 2^-149\<close>
  for a subnormal one. \<open>DataView.setUint16\<close> stores ToUint16 of its argument, high
  byte first; the offsets used here, 0 and 2 of a 4-byte buffer, are always in range.
\<close>

definition decode_float32 :: "32 word \<Rightarrow> js_number" where
  "decode_float32 bits =
     (let s = bit bits 31;
          e = unat (drop_bit 23 bits AND 0xFF);
          m = unat (bits AND 0x7FFFFF)
      in if e = 255 then (if m = 0 then (if s then NegInf else PosInf) else NaN)
         else
           (let mag = (if e = 0 then real m / 2 ^ 149
                       else real (2 ^ 23 + m) * 2 ^ e / 2 ^ 150)
            in Num (if s then - mag else mag)))"

type_synonym data_view = "8 word list"

definition new_ArrayBuffer :: "nat \<Rightarrow> data_view" where
  "new_ArrayBuffer n = replicate n 0"

definition setUint16 :: "nat \<Rightarrow> int \<Rightarrow> data_view \<Rightarrow> data_view" where
  "setUint16 byteOffset v view =
     (let w = (word_of_int v :: 16 word)
      in view[byteOffset := ucast (drop_bit 8 w), byteOffset + 1 := ucast w])"

definition getUint32 :: "nat \<Rightarrow> data_view \<Rightarrow> 32 word" where
  "getUint32 byteOffset view =
     push_bit 24 (ucast (view ! byteOffset)) OR push_bit 16 (ucast (view ! (byteOffset + 1)))
       OR push_bit 8 (ucast (view ! (byteOffset + 2))) OR ucast (view ! (byteOffset + 3))"

definition getFloat32 :: "nat \<Rightarrow> data_view \<Rightarrow> js_number" where
  "getFloat32 byteOffset view = decode_float32 (getUint32 byteOffset view)"

definition convertFloat32 :: "int list \<Rightarrow> string \<Rightarrow> bool option \<Rightarrow> js_number" where
  "convertFloat32 registers byteOrder ws =
     (let view = new_ArrayBuffer 4;
          wordSwap = wordSwap_default ws;
          reg0 = int_of_reg (if wordSwap then js_index registers 1 else js_index registers 0);
          reg1 = int_of_reg (if wordSwap then js_index registers 0 else js_index registers 1);
          view = (if byteOrder = ''big_endian''
                  then setUint16 2 reg1 (setUint16 0 reg0 view)
                  else setUint16 2 reg0 (setUint16 0 reg1 view))
      in getFloat32 0 view)"


section \<open>Arithmetic on JavaScript numbers\<close>

text \<open>
  Arithmetic and comparison of numbers. On finite values the operations are the exact
  real ones: rounding to the nearest double and overflow to infinity are not modelled.
  The non-finite cases follow IEEE-754. No property proved below depends on the value
  of an inexact operation.
\<close>

fun js_neg :: "js_number \<Rightarrow> js_number" where
  "js_neg (Num a) = Num (- a)"
| "js_neg NaN = NaN"
| "js_neg PosInf = NegInf"
| "js_neg NegInf = PosInf"

fun js_add :: "js_number \<Rightarrow> js_number \<Rightarrow> js_number" where
  "js_add (Num a) (Num b) = Num (a + b)"
| "js_add NaN _ = NaN"
| "js_add _ NaN = NaN"
| "js_add PosInf NegInf = NaN"
| "js_add NegInf PosInf = NaN"
| "js_add PosInf _ = PosInf"
| "js_add _ PosInf = PosInf"
| "js_add NegInf _ = NegInf"
| "js_add _ NegInf = NegInf"

definition js_sub :: "js_number \<Rightarrow> js_number \<Rightarrow> js_number" where
  "js_sub a b = js_add a (js_neg b)"

definition js_inf :: "bool \<Rightarrow> js_number" where
  "js_inf negative = (if negative then NegInf else PosInf)"

fun js_mul :: "js_number \<Rightarrow> js_number \<Rightarrow> js_number" where
  "js_mul (Num a) (Num b) = Num (a * b)"
| "js_mul NaN _ = NaN"
| "js_mul _ NaN = NaN"
| "js_mul PosInf (Num b) = (if b = 0 then NaN else js_inf (b < 0))"
| "js_mul NegInf (Num b) = (if b = 0 then NaN else js_inf (0 < b))"
| "js_mul (Num a) PosInf = (if a = 0 then NaN else js_inf (a < 0))"
| "js_mul (Num a) NegInf = (if a = 0 then NaN else js_inf (0 < a))"
| "js_mul PosInf PosInf = PosInf"
| "js_mul NegInf NegInf = PosInf"
| "js_mul PosInf NegInf = NegInf"
| "js_mul NegInf PosInf = NegInf"

fun js_div :: "js_number \<Rightarrow> js_number \<Rightarrow> js_number" where
  "js_div (Num a) (Num b) =
     (if b = 0 then (if a = 0 then NaN else js_inf (a < 0)) else Num (a / b))"
| "js_div NaN _ = NaN"
| "js_div _ NaN = NaN"
| "js_div (Num a) _ = Num 0"
| "js_div PosInf (Num b) = js_inf (b < 0)"
| "js_div NegInf (Num b) = js_inf (0 \<le> b)"
| "js_div _ _ = NaN"

fun js_less :: "js_number \<Rightarrow> js_number \<Rightarrow> bool" where
  "js_less (Num a) (Num b) = (a < b)"
| "js_less NaN _ = False"
| "js_less _ NaN = False"
| "js_less _ NegInf = False"
| "js_less PosInf _ = False"
| "js_less _ _ = True"

definition js_isNaN :: "js_number \<Rightarrow> bool" where
  "js_isNaN x = (x = NaN)"



section \<open>Messages and exceptions\<close>

text \<open>
  A message is a template literal kept as the list of its pieces: the literal text and
  the interpolated values, not rendered to digits. The only operation of
  \<open>convertData\<close> that can throw is \<open>Number.prototype.toFixed\<close>: a RangeError when
  the digits argument is outside \<open>[0, 100]\<close> (the message text is the engine's). The
  result is parsed back by \<open>Number(...)\<close>: the value rounded half away from zero at that
  many decimals; from \<open>10^21\<close> on the number is printed in full and comes back unchanged.
\<close>

datatype msg_part = Str string | IntPart int | NumPart js_number

type_synonym message = "msg_part list"

datatype js_thrown = ErrorObject string | NonError

definition thrown_message :: "js_thrown \<Rightarrow> message" where
  "thrown_message e =
     (case e of ErrorObject m \<Rightarrow> [Str m] | NonError \<Rightarrow> [Str ''Unknown conversion error''])"

definition toFixed_Number :: "js_number \<Rightarrow> int \<Rightarrow> js_thrown + js_number" where
  "toFixed_Number x digits =
     (if digits < 0 \<or> 100 < digits
      then Inl (ErrorObject ''toFixed() digits argument must be between 0 and 100'')
      else Inr (case x of
                  Num r \<Rightarrow>
                    if 10 ^ 21 \<le> \<bar>r\<bar> then Num r
                    else Num (sgn r * of_int \<lfloor>\<bar>r\<bar> * 10 ^ nat digits + 1 / 2\<rfloor> / 10 ^ nat digits)
                | _ \<Rightarrow> x))"

section \<open>Rules and results\<close>

text \<open>
  The interfaces \<open>ConversionRule\<close> and \<open>ConversionResult\<close>. An optional field is an
  \<open>option\<close>; \<open>dataType\<close> and \<open>byteOrder\<close> are strings, as the decoder's own functions
  take them, so that the \<open>default\<close> branches are reachable. The fields \<open>min\<close>, \<open>max\<close>,
  \<open>from\<close>, \<open>to\<close> and the fields of the result are renamed where a name is taken.
\<close>

record Validation =
  enabled :: bool
  vmin :: "js_number option"
  vmax :: "js_number option"
  allowNaN :: "bool option"

record UnitConversion =
  from_unit :: string
  to_unit :: string

record ConversionRule =
  name :: string
  startRegister :: int
  dataType :: string
  byteOrder :: string
  wordSwap :: "bool option"
  scaleFactor :: "js_number option"
  offset :: "js_number option"
  decimalPlaces :: "int option"
  bitMask :: "int option"
  bitPosition :: "int option"
  bitLength :: "int option"
  validation :: "Validation option"
  unitConversion :: "UnitConversion option"

record Metadata =
  m_scaleFactor :: "js_number option"
  m_offset :: "js_number option"
  m_byteOrder :: string
  m_unitConversion :: "string option"

record ConversionResult =
  res_name :: string
  res_value :: js_value
  originalValue :: js_value
  res_dataType :: string
  res_valid :: bool
  res_error :: "message option"
  metadata :: "Metadata option"



section \<open>DataConversionUtils: scaled, bitfield, unit conversion, validation\<close>

text \<open>
  convertScaled: \<open>undefined\<close> becomes NaN as soon as a factor or an offset is applied.
  convertBitfield: \<open>rule.bitLength || 1\<close> replaces an absent or zero length by 1; the
  shift counts are taken modulo 32 by the operators themselves.
\<close>

definition nan_if_undefined :: "js_number option \<Rightarrow> js_number" where
  "nan_if_undefined v = (case v of None \<Rightarrow> NaN | Some n \<Rightarrow> n)"

definition convertScaled :: "int option \<Rightarrow> ConversionRule \<Rightarrow> js_value" where
  "convertScaled register rule =
     (let v = map_option (\<lambda>r. Num (of_int r)) register;
          v = (case scaleFactor rule of
                 Some sf \<Rightarrow> Some (js_mul (nan_if_undefined v) sf)
               | None \<Rightarrow> v);
          v = (case offset rule of
                 Some off \<Rightarrow> Some (js_add (nan_if_undefined v) off)
               | None \<Rightarrow> v)
      in case v of None \<Rightarrow> JUndefined | Some n \<Rightarrow> JNum n)"

definition convertBitfield :: "int option \<Rightarrow> ConversionRule \<Rightarrow> js_value" where
  "convertBitfield register rule =
     (case bitMask rule of
        Some m \<Rightarrow> js_int (js_and (int_of_reg register) m)
      | None \<Rightarrow>
          (case bitPosition rule of
             Some pos \<Rightarrow>
               (let len = (case bitLength rule of
                             None \<Rightarrow> 1
                           | Some l \<Rightarrow> if l = 0 then 1 else l);
                    mask = js_shl 1 len - 1;
                    result = js_and (js_sar (int_of_reg register) pos) mask
                in if len = 1 then JBool (result \<noteq> 0) else js_int result)
           | None \<Rightarrow> (case register of None \<Rightarrow> JUndefined | Some r \<Rightarrow> js_int r)))"

text \<open>
  applyUnitConversion looks the key \<open>from_to_to\<close> up in its own object of sixteen
  formulas. No property inherited from \<open>Object.prototype\<close> has a name containing
  \<open>_to_\<close>, so the lookup is a lookup in this table.
\<close>

definition conversionMap :: "(string \<times> (js_number \<Rightarrow> js_number)) list" where
  "conversionMap =
     [(''celsius_to_fahrenheit'', \<lambda>v. js_add (js_div (js_mul v (Num 9)) (Num 5)) (Num 32)),
      (''fahrenheit_to_celsius'', \<lambda>v. js_div (js_mul (js_sub v (Num 32)) (Num 5)) (Num 9)),
      (''celsius_to_kelvin'', \<lambda>v. js_add v (Num 273.15)),
      (''kelvin_to_celsius'', \<lambda>v. js_sub v (Num 273.15)),
      (''psi_to_bar'', \<lambda>v. js_mul v (Num 0.0689476)),
      (''bar_to_psi'', \<lambda>v. js_mul v (Num 14.5038)),
      (''pascal_to_bar'', \<lambda>v. js_mul v (Num 0.00001)),
      (''bar_to_pascal'', \<lambda>v. js_mul v (Num 100000)),
      (''gpm_to_lpm'', \<lambda>v. js_mul v (Num 3.78541)),
      (''lpm_to_gpm'', \<lambda>v. js_mul v (Num 0.264172)),
      (''cfm_to_cmh'', \<lambda>v. js_mul v (Num 1.69901)),
      (''cmh_to_cfm'', \<lambda>v. js_mul v (Num 0.588578)),
      (''hp_to_kw'', \<lambda>v. js_mul v (Num 0.745699)),
      (''kw_to_hp'', \<lambda>v. js_mul v (Num 1.34102)),
      (''btu_to_kw'', \<lambda>v. js_mul v (Num 0.000293071)),
      (''kw_to_btu'', \<lambda>v. js_mul v (Num 3412.14))]"

definition conversionKey :: "UnitConversion \<Rightarrow> string" where
  "conversionKey conversion = from_unit conversion @ ''_to_'' @ to_unit conversion"

definition applyUnitConversion :: "js_number \<Rightarrow> UnitConversion \<Rightarrow> js_number" where
  "applyUnitConversion v conversion =
     (case map_of conversionMap (conversionKey conversion) of
        Some converter \<Rightarrow> converter v
      | None \<Rightarrow> v)"

definition min_error :: "js_number \<Rightarrow> Validation \<Rightarrow> message option" where
  "min_error n vld =
     (case vmin vld of
        Some lo \<Rightarrow>
          if js_less n lo
          then Some [Str ''Value '', NumPart n, Str '' is below minimum '', NumPart lo]
          else None
      | None \<Rightarrow> None)"

definition max_error :: "js_number \<Rightarrow> Validation \<Rightarrow> message option" where
  "max_error n vld =
     (case vmax vld of
        Some hi \<Rightarrow>
          if js_less hi n
          then Some [Str ''Value '', NumPart n, Str '' is above maximum '', NumPart hi]
          else None
      | None \<Rightarrow> None)"

definition validateValue :: "js_value \<Rightarrow> Validation \<Rightarrow> bool \<times> message option" where
  "validateValue v vld =
     (case v of
        JNum n \<Rightarrow>
          if js_isNaN n \<and> allowNaN vld \<noteq> Some True
          then (False, Some [Str ''Value is NaN''])
          else
            (case min_error n vld of
               Some m \<Rightarrow> (False, Some m)
             | None \<Rightarrow>
                 (case max_error n vld of
                    Some m \<Rightarrow> (False, Some m)
                  | None \<Rightarrow> (True, None)))
      | _ \<Rightarrow> (True, None))"

section \<open>DataConversionUtils.convertData\<close>

text \<open>
  The body of the \<open>try\<close> block is \<open>convertData_try\<close>: \<open>Inl\<close> is a thrown exception,
  \<open>Inr\<close> the returned result. \<open>decode_switch\<close> is the \<open>switch\<close> on the data type
  (\<open>None\<close> is its \<open>default\<close> branch), followed by the unit conversion, the rounding
  and the validation of the result. \<open>convertData\<close> adds the \<open>catch\<close> clause.
  \<open>Array.prototype.slice\<close> counts a negative index from the end of the array.
\<close>

definition getRequiredRegisters :: "string \<Rightarrow> int" where
  "getRequiredRegisters dt =
     (if dt \<in> {''int16'', ''uint16'', ''scaled'', ''bitfield'', ''bcd''} then 1
      else if dt \<in> {''int32'', ''uint32'', ''float32''} then 2
      else 1)"

definition js_slice :: "'a list \<Rightarrow> int \<Rightarrow> int \<Rightarrow> 'a list" where
  "js_slice xs start fin =
     (let len = int (length xs);
          k = (if start < 0 then max (len + start) 0 else min start len);
          final = (if fin < 0 then max (len + fin) 0 else min fin len)
      in take (nat (final - k)) (drop (nat k) xs))"

definition initial_result :: "ConversionRule \<Rightarrow> ConversionResult" where
  "initial_result rule =
     \<lparr>res_name = name rule,
      res_value = JNull,
      originalValue = JNull,
      res_dataType = dataType rule,
      res_valid = False,
      res_error = None,
      metadata = Some
        \<lparr>m_scaleFactor = scaleFactor rule,
         m_offset = offset rule,
         m_byteOrder = byteOrder rule,
         m_unitConversion =
           (case unitConversion rule of
              Some uc \<Rightarrow> Some (from_unit uc @ '' to '' @ to_unit uc)
            | None \<Rightarrow> None)\<rparr>\<rparr>"

definition decode_switch :: "int list \<Rightarrow> ConversionRule \<Rightarrow> js_value option" where
  "decode_switch dataRegisters rule =
     (let dt = dataType rule in
      if dt = ''int16'' then Some (convertInt16 (js_index dataRegisters 0) (byteOrder rule))
      else if dt = ''uint16'' then Some (js_int (convertUint16 (js_index dataRegisters 0) (byteOrder rule)))
      else if dt = ''int32'' then Some (js_int (convertInt32 dataRegisters (byteOrder rule) (wordSwap rule)))
      else if dt = ''uint32'' then Some (js_int (convertUint32 dataRegisters (byteOrder rule) (wordSwap rule)))
      else if dt = ''float32'' then Some (JNum (convertFloat32 dataRegisters (byteOrder rule) (wordSwap rule)))
      else if dt = ''scaled'' then Some (convertScaled (js_index dataRegisters 0) rule)
      else if dt = ''bitfield'' then Some (convertBitfield (js_index dataRegisters 0) rule)
      else if dt = ''bcd'' then Some (js_int (convertBCD (js_index dataRegisters 0) (byteOrder rule)))
      else None)"

definition unit_step :: "ConversionRule \<Rightarrow> js_value \<Rightarrow> js_value" where
  "unit_step rule v =
     (case unitConversion rule of
        Some uc \<Rightarrow> (case v of JNum n \<Rightarrow> JNum (applyUnitConversion n uc) | _ \<Rightarrow> v)
      | None \<Rightarrow> v)"

definition rounding_step :: "ConversionRule \<Rightarrow> js_value \<Rightarrow> js_thrown + js_value" where
  "rounding_step rule v =
     (case decimalPlaces rule of
        Some d \<Rightarrow>
          (case v of
             JNum n \<Rightarrow> (case toFixed_Number n d of Inl e \<Rightarrow> Inl e | Inr n' \<Rightarrow> Inr (JNum n'))
           | _ \<Rightarrow> Inr v)
      | None \<Rightarrow> Inr v)"

definition validation_step :: "ConversionRule \<Rightarrow> ConversionResult \<Rightarrow> ConversionResult" where
  "validation_step rule result =
     (case validation rule of
        Some vld \<Rightarrow>
          if enabled vld
          then (case validateValue (res_value result) vld of
                  (True, _) \<Rightarrow> result\<lparr>res_valid := True\<rparr>
                | (False, err) \<Rightarrow> result\<lparr>res_valid := False, res_error := err\<rparr>)
          else result\<lparr>res_valid := True\<rparr>
      | None \<Rightarrow> result\<lparr>res_valid := True\<rparr>)"

definition convertData_try :: "int list \<Rightarrow> ConversionRule \<Rightarrow> js_thrown + ConversionResult" where
  "convertData_try registers rule =
     (let result = initial_result rule;
          requiredRegisters = getRequiredRegisters (dataType rule)
      in if int (length registers) < startRegister rule + requiredRegisters
         then Inr (result\<lparr>res_error := Some
                [Str ''Not enough registers available. Required: '', IntPart requiredRegisters,
                 Str '', Available: '', IntPart (int (length registers) - startRegister rule)]\<rparr>)
         else
           (let dataRegisters = js_slice registers (startRegister rule)
                                  (startRegister rule + requiredRegisters);
                result = result\<lparr>originalValue :=
                           (if length dataRegisters = 1 then js_int (dataRegisters ! 0)
                            else JArr dataRegisters)\<rparr>
            in case decode_switch dataRegisters rule of
                 None \<Rightarrow> Inr (result\<lparr>res_error := Some
                           [Str ''Unsupported data type: '', Str (dataType rule)]\<rparr>)
               | Some v \<Rightarrow>
                   (case rounding_step rule (unit_step rule v) of
                      Inl e \<Rightarrow> Inl e
                    | Inr v' \<Rightarrow> Inr (validation_step rule (result\<lparr>res_value := v'\<rparr>)))))"

definition convertData :: "int list \<Rightarrow> ConversionRule \<Rightarrow> ConversionResult" where
  "convertData registers rule =
     (case convertData_try registers rule of
        Inr result \<Rightarrow> result
      | Inl e \<Rightarrow>
          \<lparr>res_name = name rule,
           res_value = JNull,
           originalValue = JNull,
           res_dataType = dataType rule,
           res_valid = False,
           res_error = Some (thrown_message e),
           metadata = Some
             \<lparr>m_scaleFactor = None,
              m_offset = None,
              m_byteOrder = byteOrder rule,
              m_unitConversion = None\<rparr>\<rparr>)"

definition convertMultiple :: "int list \<Rightarrow> ConversionRule list \<Rightarrow> ConversionResult list" where
  "convertMultiple registers rules = map (\<lambda>rule. convertData registers rule) rules"


section \<open>ValidationUtils\<close>

text \<open>
  \<open>String.prototype.trim\<close> and \<open>String.prototype.toLowerCase\<close> are functions of the
  runtime and work on Unicode text. The validator takes them as the parameters \<open>trim\<close>
  and \<open>toLowerCase\<close>: what is proved of it holds for the functions of every engine and
  for every way of writing a name as a string. Each \<open>errors.push\<close> or \<open>warnings.push\<close>
  under a condition is a \<open>push_if\<close>, appended in the order of the source. The rules are
  a list, so the \<open>Array.isArray\<close> guard of validateConversionRules never fires;
  \<open>startRegister\<close> is an integer, so its test for \<open>undefined\<close> never fires either.
\<close>

fun js_join :: "string \<Rightarrow> string list \<Rightarrow> string" where
  "js_join sep [] = []"
| "js_join sep [x] = x"
| "js_join sep (x # y # zs) = x @ sep @ js_join sep (y # zs)"

record ValidationResult =
  valid :: bool
  errors :: "message list"
  warnings :: "message list"

definition rule_message :: "nat \<Rightarrow> msg_part list \<Rightarrow> message" where
  "rule_message index rest = [Str ''Rule '', IntPart (int index + 1)] @ rest"

definition push_if :: "bool \<Rightarrow> 'a \<Rightarrow> 'a list" where
  "push_if c x = (if c then [x] else [])"



definition validateConversionRule ::
  "(string \<Rightarrow> string) \<Rightarrow> ConversionRule \<Rightarrow> nat \<Rightarrow> ValidationResult" where
  "validateConversionRule trim rule index =
     (let dt = dataType rule;
          errs =
            push_if (name rule = [] \<or> trim (name rule) = [])
              (rule_message index [Str '': Name is required''])
            @ push_if (startRegister rule < 0)
              (rule_message index [Str '': Start register must be >= 0''])
            @ push_if (dt = [])
              (rule_message index [Str '': Data type is required''])
            @ push_if (byteOrder rule = [])
              (rule_message index [Str '': Byte order is required''])
            @ (if dt = [] then []
               else if dt = ''scaled'' then []
               else if dt = ''bitfield'' then
                 push_if (bitMask rule = None \<and> bitPosition rule = None)
                   (rule_message index [Str '': Bitfield conversion requires bit mask or bit position''])
                 @ push_if (case bitPosition rule of Some p \<Rightarrow> p < 0 \<or> 15 < p | None \<Rightarrow> False)
                   (rule_message index [Str '': Bit position must be between 0 and 15''])
                 @ push_if (case bitLength rule of Some l \<Rightarrow> l < 1 \<or> 16 < l | None \<Rightarrow> False)
                   (rule_message index [Str '': Bit length must be between 1 and 16''])
               else if dt \<in> {''float32'', ''int32'', ''uint32''} then []
               else push_if (dt \<notin> {''int16'', ''uint16'', ''bcd''})
                   (rule_message index [Str '': Unsupported data type '', Str [CHR 0x27], Str dt, Str [CHR 0x27]]))
            @ push_if (case validation rule of
                         Some vld \<Rightarrow> enabled vld \<and>
                           (case (vmin vld, vmax vld) of
                              (Some lo, Some hi) \<Rightarrow> js_less hi lo
                            | _ \<Rightarrow> False)
                       | None \<Rightarrow> False)
              (rule_message index [Str '': Validation minimum cannot be greater than maximum''])
            @ push_if (case unitConversion rule of
                         Some uc \<Rightarrow> from_unit uc = [] \<or> to_unit uc = []
                       | None \<Rightarrow> False)
              (rule_message index [Str '': Unit conversion requires both 'from' and 'to' units''])
            @ push_if (case decimalPlaces rule of Some d \<Rightarrow> d < 0 \<or> 10 < d | None \<Rightarrow> False)
              (rule_message index [Str '': Decimal places must be between 0 and 10'']);
          warns =
            push_if (dt = ''scaled'' \<and> scaleFactor rule = None \<and> offset rule = None)
              (rule_message index [Str '': Scaled conversion without scale factor or offset''])
            @ push_if (case unitConversion rule of
                         Some uc \<Rightarrow> from_unit uc = to_unit uc
                       | None \<Rightarrow> False)
              (rule_message index [Str '': Unit conversion from and to are the same''])
      in \<lparr>valid = (errs = []), errors = errs, warnings = warns\<rparr>)"

text \<open>
  checkRegisterOverlaps builds a range for every rule that has a data type and compares
  every range with the later ones. \<open>duplicates_after\<close> is
  \<open>names.filter((name, index) => names.indexOf(name) !== index)\<close>, and \<open>unique_first\<close>
  is \<open>[...new Set(duplicateNames)]\<close>, which keeps first occurrences.
\<close>

record RegisterRange =
  range_name :: string
  range_start :: int
  range_end :: int

definition getRegistersNeeded :: "string \<Rightarrow> int" where
  "getRegistersNeeded dt =
     (if dt \<in> {''int16'', ''uint16'', ''scaled'', ''bitfield'', ''bcd''} then 1
      else if dt \<in> {''int32'', ''uint32'', ''float32''} then 2
      else 1)"

definition rangesOverlap :: "RegisterRange \<Rightarrow> RegisterRange \<Rightarrow> bool" where
  "rangesOverlap range1 range2 =
     (range_start range1 \<le> range_end range2 \<and> range_start range2 \<le> range_end range1)"

definition rule_range :: "ConversionRule \<Rightarrow> RegisterRange" where
  "rule_range rule =
     \<lparr>range_name = name rule,
      range_start = startRegister rule,
      range_end = startRegister rule + getRegistersNeeded (dataType rule) - 1\<rparr>"

definition overlaps_with :: "RegisterRange \<Rightarrow> RegisterRange list \<Rightarrow> string list" where
  "overlaps_with range1 later =
     map (\<lambda>range2. range_name range1 @ '' and '' @ range_name range2)
       (filter (rangesOverlap range1) later)"

fun overlap_pairs :: "RegisterRange list \<Rightarrow> string list" where
  "overlap_pairs [] = []"
| "overlap_pairs (range1 # later) = overlaps_with range1 later @ overlap_pairs later"

definition checkRegisterOverlaps :: "ConversionRule list \<Rightarrow> string list" where
  "checkRegisterOverlaps rules =
     overlap_pairs (map rule_range (filter (\<lambda>rule. dataType rule \<noteq> []) rules))"

fun duplicates_after :: "string list \<Rightarrow> string list \<Rightarrow> string list" where
  "duplicates_after seen [] = []"
| "duplicates_after seen (x # xs) =
     (if x \<in> set seen then [x] else []) @ duplicates_after (seen @ [x]) xs"

fun unique_first :: "string list \<Rightarrow> string list \<Rightarrow> string list" where
  "unique_first seen [] = []"
| "unique_first seen (x # xs) =
     (if x \<in> set seen then [] else [x]) @ unique_first (seen @ [x]) xs"

definition rule_names ::
  "(string \<Rightarrow> string) \<Rightarrow> (string \<Rightarrow> string) \<Rightarrow> ConversionRule list \<Rightarrow> string list" where
  "rule_names trim toLowerCase rules =
     filter (\<lambda>n. n \<noteq> []) (map (\<lambda>rule. toLowerCase (trim (name rule))) rules)"

definition validateConversionRules ::
  "(string \<Rightarrow> string) \<Rightarrow> (string \<Rightarrow> string) \<Rightarrow> ConversionRule list \<Rightarrow> ValidationResult" where
  "validateConversionRules trim toLowerCase rules =
     (if rules = []
      then \<lparr>valid = False, errors = [[Str ''At least one conversion rule is required'']], warnings = []\<rparr>
      else
        (let checked = map (\<lambda>(rule, index). validateConversionRule trim rule index)
                         (zip rules [0..<length rules]);
             duplicateNames = duplicates_after [] (rule_names trim toLowerCase rules);
             overlaps = checkRegisterOverlaps rules;
             errs = concat (map errors checked)
                    @ push_if (duplicateNames \<noteq> [])
                        [Str ''Duplicate conversion names found: '',
                         Str (js_join '', '' (unique_first [] duplicateNames))];
             warns = concat (map warnings checked)
                     @ push_if (overlaps \<noteq> [])
                         [Str ''Register overlaps detected: '', Str (js_join '', '' overlaps)]
         in \<lparr>valid = (errs = []), errors = errs, warnings = warns\<rparr>))"


text \<open>
  The register window in the words of the specification: the footprint is fixed by the
  data type, 1 for int16, uint16, scaled, bitfield and bcd, 2 for int32, uint32 and
  float32, 4 for double, and the window of a rule is
  \<open>[startRegister, startRegister + footprint - 1]\<close>. \<open>data_types\<close> are the eight data
  types of the interface \<open>ConversionRule\<close>.
\<close>

definition data_types :: "string set" where
  "data_types =
     {''int16'', ''uint16'', ''int32'', ''uint32'', ''float32'', ''scaled'', ''bitfield'', ''bcd''}"

definition footprint_spec :: "string \<Rightarrow> int" where
  "footprint_spec dt =
     (if dt \<in> {''int16'', ''uint16'', ''scaled'', ''bitfield'', ''bcd''} then 1
      else if dt \<in> {''int32'', ''uint32'', ''float32''} then 2
      else if dt = ''double'' then 4
      else 0)"

definition window_spec :: "ConversionRule \<Rightarrow> int set" where
  "window_spec rule =
     {startRegister rule .. startRegister rule + footprint_spec (dataType rule) - 1}"

section \<open>Example rules\<close>

text \<open>
  For the examples, \<open>trim\<close> and \<open>toLowerCase\<close> as they act on ASCII text: the white
  space of ASCII is stripped at both ends and \<open>A\<close> to \<open>Z\<close> are lowered. On the ASCII
  names of the examples these are the values of the runtime's functions.
\<close>

definition ascii_whitespace :: "char \<Rightarrow> bool" where
  "ascii_whitespace c = (c \<in> {CHR '' '', CHR 0x09, CHR 0x0A, CHR 0x0B, CHR 0x0C, CHR 0x0D})"

definition ascii_trim :: "string \<Rightarrow> string" where
  "ascii_trim s = rev (dropWhile ascii_whitespace (rev (dropWhile ascii_whitespace s)))"

definition ascii_lower_char :: "char \<Rightarrow> char" where
  "ascii_lower_char c =
     (case map_of (zip ''ABCDEFGHIJKLMNOPQRSTUVWXYZ'' ''abcdefghijklmnopqrstuvwxyz'') c of
        Some l \<Rightarrow> l
      | None \<Rightarrow> c)"

definition ascii_toLowerCase :: "string \<Rightarrow> string" where
  "ascii_toLowerCase s = map ascii_lower_char s"


text \<open>A rule that sets only the required fields, and one that asks for a unit conversion.\<close>

definition basic_rule :: "string \<Rightarrow> int \<Rightarrow> string \<Rightarrow> ConversionRule" where
  "basic_rule n start dt =
     \<lparr>name = n, startRegister = start, dataType = dt, byteOrder = ''big_endian'',
      wordSwap = None, scaleFactor = None, offset = None, decimalPlaces = None, bitMask = None,
      bitPosition = None, bitLength = None, validation = None, unitConversion = None\<rparr>"


section \<open>IndustrialUnits\<close>







section \<open>Bitwise operators as arithmetic\<close>

lemma or_shl_int:
  assumes "0 \<le> l" "l < 65536"
  shows "push_bit 16 h OR l = h * 65536 + (l::int)"
proof -
  have l: "take_bit 16 l = l"
    using assms by (simp add: take_bit_int_eq_self)
  have "push_bit 16 h AND take_bit 16 l = 0"
    by (rule bit_eqI) (auto simp add: bit_simps)
  then have "push_bit 16 h + l = push_bit 16 h OR l"
    using l disjunctive_add_eq_or [of "push_bit 16 h" l] by simp
  then show ?thesis
    by (simp add: push_bit_eq_mult)
qed

lemma sint32_of_int:
  assumes "0 \<le> v" "v < 4294967296"
  shows "sint (word_of_int v :: 32 word) = (if v > 2147483647 then v - 4294967296 else v)"
proof -
  have "sint (word_of_int v :: 32 word) = take_bit 32 (v + 2147483648) - 2147483648"
    by (simp add: sint_sbintrunc' signed_take_bit_eq_take_bit_shift)
  also have "\<dots> = (v + 2147483648) mod 4294967296 - 2147483648"
    by (simp add: take_bit_eq_mod)
  finally have eq: "sint (word_of_int v :: 32 word) = (v + 2147483648) mod 4294967296 - 2147483648" .
  show ?thesis
  proof (cases "v > 2147483647")
    case True
    have "(v + 2147483648) mod 4294967296 = v - 2147483648"
      by (rule int_mod_pos_eq [where q = 1]) (use assms True in simp_all)
    with True eq show ?thesis by simp
  next
    case False
    have "(v + 2147483648) mod 4294967296 = v + 2147483648"
      by (rule mod_pos_pos_trivial) (use assms False in simp_all)
    with False eq show ?thesis by simp
  qed
qed

lemma uint32_of_int:
  assumes "0 \<le> v" "v < 4294967296"
  shows "uint (word_of_int v :: 32 word) = v"
  using assms by (simp add: uint_word_of_int)

lemma word_of_int_sint32: "word_of_int (sint (x :: 32 word)) = x"
  by simp

lemma js_or_shl_sint:
  assumes "0 \<le> l" "l < 65536"
  shows "js_or (js_shl h 16) l = sint (word_of_int (h * 65536 + l) :: 32 word)"
proof -
  have "push_bit 16 (word_of_int h :: 32 word) OR word_of_int l = word_of_int (push_bit 16 h OR l)"
    by (simp add: of_int_or_eq of_int_push_bit)
  then show ?thesis
    using assms by (simp add: js_or_def js_shl_def or_shl_int)
qed

lemma assemble_bounds:
  assumes "0 \<le> h" "h \<le> 65535" "0 \<le> l" "l \<le> 65535"
  shows "0 \<le> h * 65536 + l" "h * 65536 + l < (4294967296::int)"
  using assms by simp_all

lemma js_or_shl_signed:
  assumes "0 \<le> h" "h \<le> 65535" "0 \<le> l" "l \<le> 65535"
  shows "js_or (js_shl h 16) l =
           (if h * 65536 + l > 2147483647 then h * 65536 + l - 4294967296 else h * 65536 + l)"
proof -
  have "l < 65536" using assms by simp
  then have "js_or (js_shl h 16) l = sint (word_of_int (h * 65536 + l) :: 32 word)"
    using assms by (simp only: js_or_shl_sint)
  then show ?thesis
    by (simp only: sint32_of_int [OF assemble_bounds [OF assms]])
qed

lemma js_or_shl_unsigned:
  assumes "0 \<le> h" "h \<le> 65535" "0 \<le> l" "l \<le> 65535"
  shows "ToUint32 (js_or (js_shl h 16) l) = h * 65536 + l"
proof -
  have "l < 65536" using assms by simp
  then have "js_or (js_shl h 16) l = sint (word_of_int (h * 65536 + l) :: 32 word)"
    using assms by (simp only: js_or_shl_sint)
  then have "ToUint32 (js_or (js_shl h 16) l) = uint (word_of_int (h * 65536 + l) :: 32 word)"
    by (simp only: ToUint32_def word_of_int_sint32)
  then show ?thesis
    by (simp only: uint32_of_int [OF assemble_bounds [OF assms]])
qed

lemma js_and_mask:
  assumes "0 \<le> a" "a < 2147483648" "k < 32"
  shows "js_and a (mask k) = a mod 2 ^ k"
proof -
  have "(word_of_int a :: 32 word) AND word_of_int (mask k) = word_of_int (take_bit k a)"
    by (simp add: of_int_and_eq take_bit_eq_mask)
  moreover have "0 \<le> take_bit k a" by simp
  moreover have "take_bit k a \<le> a" using assms by (simp add: take_bit_int_less_eq_self_iff)
  ultimately show ?thesis
    using assms by (simp add: js_and_def sint32_of_int take_bit_eq_mod)
qed

lemma js_and_255: "0 \<le> a \<Longrightarrow> a < 2147483648 \<Longrightarrow> js_and a 255 = a mod 256"
  using js_and_mask [of a 8] by (simp add: mask_eq_exp_minus_1)

lemma js_and_15: "0 \<le> a \<Longrightarrow> a < 2147483648 \<Longrightarrow> js_and a 15 = a mod 16"
  using js_and_mask [of a 4] by (simp add: mask_eq_exp_minus_1)

lemma js_sar_div:
  assumes "0 \<le> a" "a < 2147483648" "0 \<le> n" "n < 32"
  shows "js_sar a n = a div 2 ^ nat n"
  using assms by (simp add: js_sar_def sint_signed_drop_bit_eq sint32_of_int drop_bit_eq_div)

lemma js_index_pair [simp]:
  "js_index [a, b] 0 = Some a" "js_index [a, b] (Suc 0) = Some b"
  by (simp_all add: js_index_def)

section \<open>The integer decoders\<close>

text \<open>
  C2. For every 16-bit word \<open>w\<close> in \<open>[0, 65535]\<close>, decoding it as int16 yields
  \<open>w - 65536\<close> when \<open>w > 32767\<close> and \<open>w\<close> otherwise, and the decoded value lies in
  \<open>[-32768, 32767]\<close>
\<close>

theorem convertInt16_twos_complement:
  assumes "0 \<le> w" and "w \<le> 65535"
  shows "\<exists>v. convertInt16 (Some w) bo = js_int v
           \<and> v = (if w > 32767 then w - 65536 else w)
           \<and> - 32768 \<le> v \<and> v \<le> 32767"
  using assms by (simp add: convertInt16_def)

theorem convertInt16_twos_complement_witness:
  "(0::int) \<le> 40000 \<and> (40000::int) \<le> 65535
     \<and> (\<exists>v. convertInt16 (Some 40000) ''big_endian'' = js_int v
           \<and> v = (if (40000::int) > 32767 then 40000 - 65536 else 40000)
           \<and> - 32768 \<le> v \<and> v \<le> 32767)"
  using convertInt16_twos_complement [of 40000 "''big_endian''"] by simp

lemma convertUint32_pair:
  assumes "0 \<le> w0" "w0 \<le> 65535" "0 \<le> w1" "w1 \<le> 65535"
  shows "convertUint32 [w0, w1] bo ws = raw32_spec w0 w1 bo (wordSwap_default ws)"
  using assms
  by (simp add: convertUint32_def raw32_spec_def wordSwap_default_def int_of_reg_def
      js_or_shl_unsigned)

lemma convertInt32_pair:
  assumes "0 \<le> w0" "w0 \<le> 65535" "0 \<le> w1" "w1 \<le> 65535"
  shows "convertInt32 [w0, w1] bo ws =
           (if raw32_spec w0 w1 bo (wordSwap_default ws) > 2147483647
            then raw32_spec w0 w1 bo (wordSwap_default ws) - 4294967296
            else raw32_spec w0 w1 bo (wordSwap_default ws))"
  using assms
  by (simp add: convertInt32_def raw32_spec_def wordSwap_default_def int_of_reg_def
      js_or_shl_signed)

lemma raw32_spec_bounds:
  assumes "0 \<le> w0" "w0 \<le> 65535" "0 \<le> w1" "w1 \<le> 65535"
  shows "0 \<le> raw32_spec w0 w1 bo swap \<and> raw32_spec w0 w1 bo swap < 4294967296"
  using assms by (simp add: raw32_spec_def)

text \<open>
  C3. For every pair of words \<open>w0\<close>, \<open>w1\<close> in \<open>[0, 65535]\<close> and every setting of byte order
  and word swap, with first and second chosen by the word swap and high and low by the
  byte order (\<open>raw32_spec\<close>), the uint32 decode equals \<open>high * 65536 + low\<close> and lies in
  \<open>[0, 2^32)\<close>, and the int32 decode is the same 32-bit quantity read as two's complement:
  the assembly minus \<open>2^32\<close> when it exceeds 2147483647, the assembly otherwise. An absent
  word swap counts as false
\<close>

theorem convert32_assembly:
  assumes "0 \<le> w0" "w0 \<le> 65535" "0 \<le> w1" "w1 \<le> 65535"
  shows "convertUint32 [w0, w1] bo ws = raw32_spec w0 w1 bo (wordSwap_default ws)
       \<and> 0 \<le> convertUint32 [w0, w1] bo ws
       \<and> convertUint32 [w0, w1] bo ws < 4294967296
       \<and> convertInt32 [w0, w1] bo ws =
           (if raw32_spec w0 w1 bo (wordSwap_default ws) > 2147483647
            then raw32_spec w0 w1 bo (wordSwap_default ws) - 4294967296
            else raw32_spec w0 w1 bo (wordSwap_default ws))"
  using convertUint32_pair [OF assms] convertInt32_pair [OF assms] raw32_spec_bounds [OF assms]
  by simp

theorem convert32_assembly_witness:
  "(0::int) \<le> 65535 \<and> (65535::int) \<le> 65535 \<and> (0::int) \<le> 1 \<and> (1::int) \<le> 65535
   \<and> raw32_spec 65535 1 ''little_endian'' True = 4294901761
   \<and> convertUint32 [65535, 1] ''little_endian'' (Some True) = 4294901761
   \<and> convertInt32 [65535, 1] ''little_endian'' (Some True) = - 65535"
  using convert32_assembly [of 65535 1 "''little_endian''" "Some True"]
  by (simp add: raw32_spec_def wordSwap_default_def)

text \<open>
  C9. For every 16-bit word, the BCD decode splits it into its high and low byte,
  reads the two nibbles of each byte as decimal digits, \<open>nibbleHigh * 10 + nibbleLow\<close>,
  and returns \<open>highByteDecimal * 100 + lowByteDecimal\<close> (\<open>bcd_spec\<close>); the register value
  \<open>0x1234\<close> decodes to 1234 and \<open>0x0000\<close> to 0
\<close>

theorem convertBCD_decimal:
  assumes "0 \<le> w" "w \<le> 65535"
  shows "convertBCD (Some w) bo = bcd_spec w"
proof -
  have h: "js_sar w 8 = w div 256"
    using assms js_sar_div [of w 8] by simp
  have hb: "0 \<le> w div 256" "w div 256 < 256"
    using assms by simp_all
  have high: "js_and (js_sar w 8) 255 = w div 256"
    using hb by (simp add: h js_and_255)
  have low: "js_and w 255 = w mod 256"
    using assms by (simp add: js_and_255)
  have nib: "js_and (js_sar b 4) 15 * 10 + js_and b 15 = bcd_byte_spec b"
    if "0 \<le> b" "b < 256" for b
  proof -
    have "js_sar b 4 = b div 16" using that js_sar_div [of b 4] by simp
    moreover have "0 \<le> b div 16" "b div 16 < 16" using that by simp_all
    ultimately show ?thesis
      using that by (simp add: js_and_15 bcd_byte_spec_def)
  qed
  have nh: "js_and (js_sar (w div 256) 4) 15 * 10 + js_and (w div 256) 15 = bcd_byte_spec (w div 256)"
    using hb by (rule nib)
  have nl: "js_and (js_sar (w mod 256) 4) 15 * 10 + js_and (w mod 256) 15 = bcd_byte_spec (w mod 256)"
    by (rule nib) simp_all
  have "convertBCD (Some w) bo =
          (js_and (js_sar (w div 256) 4) 15 * 10 + js_and (w div 256) 15) * 100
          + (js_and (js_sar (w mod 256) 4) 15 * 10 + js_and (w mod 256) 15)"
    by (simp only: convertBCD_def Let_def int_of_reg_def option.case high low)
  then show ?thesis
    by (simp only: nh nl bcd_spec_def)
qed

theorem convertBCD_decimal_witness:
  "(0::int) \<le> 0x1234 \<and> (0x1234::int) \<le> 65535
   \<and> convertBCD (Some 0x1234) ''big_endian'' = 1234
   \<and> convertBCD (Some 0x0000) ''big_endian'' = 0"
  using convertBCD_decimal [of "0x1234" "''big_endian''"]
    convertBCD_decimal [of "0x0000" "''big_endian''"]
  by (simp add: bcd_spec_def bcd_byte_spec_def)

section \<open>Byte order and word swap\<close>

lemma four_settings_two_assemblies:
  assumes "0 \<le> w0" "w0 \<le> 65535" "0 \<le> w1" "w1 \<le> 65535"
  shows "convertUint32 [w0, w1] ''big_endian'' (Some False) = w0 * 65536 + w1
       \<and> convertUint32 [w0, w1] ''little_endian'' (Some True) = w0 * 65536 + w1
       \<and> convertUint32 [w0, w1] ''big_endian'' (Some True) = w1 * 65536 + w0
       \<and> convertUint32 [w0, w1] ''little_endian'' (Some False) = w1 * 65536 + w0
       \<and> (w0 * 65536 + w1 = w1 * 65536 + w0 \<longleftrightarrow> w0 = w1)"
  using assms by (simp add: convertUint32_pair raw32_spec_def wordSwap_default_def)

text \<open>
  C4. The four settings of byte order and word swap are meant to give four assemblies of
  two distinct words: the options of the node are labelled \<open>Big Endian (ABCD)\<close> and
  \<open>Little Endian (DCBA)\<close>, and word swap is described as \<open>ABCD\<rightarrow>CDAB, DCBA\<rightarrow>BADC\<close>.
  The decoder gives only two. On the distinct words \<open>0x1234\<close> and \<open>0x5678\<close>, little endian
  without swap yields \<open>0x56781234\<close> (CDAB, not DCBA \<open>0x78563412\<close>), the value of big endian
  with swap, and little endian with swap yields \<open>0x12345678\<close> (ABCD, not BADC
  \<open>0x34127856\<close>), the value of big endian without swap; the int32 decode repeats this
\<close>

theorem four_settings_at_1234_5678:
  "(0x1234::int) \<noteq> 0x5678
   \<and> convertUint32 [0x1234, 0x5678] ''big_endian'' (Some False) = 0x12345678
   \<and> convertUint32 [0x1234, 0x5678] ''big_endian'' (Some True) = 0x56781234
   \<and> convertUint32 [0x1234, 0x5678] ''little_endian'' (Some False) = 0x56781234
   \<and> convertUint32 [0x1234, 0x5678] ''little_endian'' (Some True) = 0x12345678
   \<and> convertInt32 [0x1234, 0x5678] ''little_endian'' (Some False)
       = convertInt32 [0x1234, 0x5678] ''big_endian'' (Some True)
   \<and> convertInt32 [0x1234, 0x5678] ''little_endian'' (Some True)
       = convertInt32 [0x1234, 0x5678] ''big_endian'' (Some False)"
  by (simp add: convertUint32_def convertInt32_def wordSwap_default_def int_of_reg_def
      ToUint32_def js_or_def js_shl_def)

text \<open>
  C10. For every register window and each of the data types int32, uint32 and
  float32, decoding with byte order little endian and word swap \<open>s\<close> yields the same value
  as decoding with byte order big endian and word swap \<open>\<not> s\<close>
\<close>

theorem byte_order_is_word_swap:
  "convertInt32 registers ''little_endian'' (Some s) = convertInt32 registers ''big_endian'' (Some (\<not> s))
   \<and> convertUint32 registers ''little_endian'' (Some s) = convertUint32 registers ''big_endian'' (Some (\<not> s))
   \<and> convertFloat32 registers ''little_endian'' (Some s) = convertFloat32 registers ''big_endian'' (Some (\<not> s))"
  by (simp add: convertInt32_def convertUint32_def convertFloat32_def wordSwap_default_def)

section \<open>convertData and convertMultiple\<close>

lemma convertData_try_insufficient:
  assumes "int (length registers) < startRegister rule + getRequiredRegisters (dataType rule)"
  shows "convertData_try registers rule =
           Inr ((initial_result rule)\<lparr>res_error := Some
             [Str ''Not enough registers available. Required: '',
              IntPart (getRequiredRegisters (dataType rule)),
              Str '', Available: '', IntPart (int (length registers) - startRegister rule)]\<rparr>)"
  using assms by (simp add: convertData_try_def Let_def)

lemma getRequiredRegisters_cases:
  "getRequiredRegisters dt = (if dt \<in> {''int32'', ''uint32'', ''float32''} then 2 else 1)"
  by (simp add: getRequiredRegisters_def)

text \<open>
  C5. For every rule and every register array whose length is less than the start
  register plus the footprint of the rule's data type (2 for int32, uint32 and float32,
  1 otherwise), \<open>convertData\<close> returns an invalid result whose error is the
  not-enough-registers message with the required and the available count, and whose value
  and original value are still null: nothing was decoded
\<close>

theorem insufficient_registers:
  assumes "int (length registers) < startRegister rule + getRequiredRegisters (dataType rule)"
  shows "res_valid (convertData registers rule) = False
       \<and> res_value (convertData registers rule) = JNull
       \<and> originalValue (convertData registers rule) = JNull
       \<and> res_error (convertData registers rule) = Some
             [Str ''Not enough registers available. Required: '',
              IntPart (getRequiredRegisters (dataType rule)),
              Str '', Available: '', IntPart (int (length registers) - startRegister rule)]
       \<and> getRequiredRegisters (dataType rule) =
             (if dataType rule \<in> {''int32'', ''uint32'', ''float32''} then 2 else 1)"
  using convertData_try_insufficient [OF assms]
  by (simp add: convertData_def initial_result_def getRequiredRegisters_cases)

theorem insufficient_registers_witness:
  "int (length [7::int]) < startRegister (basic_rule ''flow'' 0 ''float32'')
       + getRequiredRegisters (dataType (basic_rule ''flow'' 0 ''float32''))
   \<and> res_valid (convertData [7] (basic_rule ''flow'' 0 ''float32'')) = False
   \<and> res_value (convertData [7] (basic_rule ''flow'' 0 ''float32'')) = JNull
   \<and> res_error (convertData [7] (basic_rule ''flow'' 0 ''float32'')) = Some
         [Str ''Not enough registers available. Required: '', IntPart 2,
          Str '', Available: '', IntPart 1]"
proof -
  have h: "int (length [7::int]) < startRegister (basic_rule ''flow'' 0 ''float32'')
       + getRequiredRegisters (dataType (basic_rule ''flow'' 0 ''float32''))"
    by (simp add: basic_rule_def getRequiredRegisters_def)
  show ?thesis
    using h insufficient_registers [OF h] by (simp add: basic_rule_def)
qed

lemma rounding_step_throws:
  assumes "rounding_step rule v = Inl e"
  shows "e = ErrorObject ''toFixed() digits argument must be between 0 and 100''
       \<and> (\<exists>d. decimalPlaces rule = Some d \<and> (d < 0 \<or> 100 < d))"
  using assms
  by (auto simp add: rounding_step_def toFixed_Number_def
      split: option.splits js_value.splits sum.splits if_splits)

lemma convertData_try_throws:
  assumes "convertData_try registers rule = Inl e"
  shows "e = ErrorObject ''toFixed() digits argument must be between 0 and 100''
       \<and> (\<exists>d. decimalPlaces rule = Some d \<and> (d < 0 \<or> 100 < d))"
proof -
  from assms obtain v where "rounding_step rule v = Inl e"
    by (auto simp add: convertData_try_def Let_def split: if_splits option.splits sum.splits)
  then show ?thesis by (rule rounding_step_throws)
qed

text \<open>
  C1. \<open>convertData\<close> is a total function into results: it has no exceptional
  outcome. Whenever the body of its \<open>try\<close> block throws, the result is the invalid result
  of the \<open>catch\<close> clause, carrying the message of what was thrown, and a batch that
  contains the rule still has the results of all rules before and after it
\<close>

theorem convertData_catches:
  assumes "convertData_try registers rule = Inl e"
  shows "convertData registers rule =
           \<lparr>res_name = name rule, res_value = JNull, originalValue = JNull,
            res_dataType = dataType rule, res_valid = False,
            res_error = Some (thrown_message e),
            metadata = Some \<lparr>m_scaleFactor = None, m_offset = None,
                             m_byteOrder = byteOrder rule, m_unitConversion = None\<rparr>\<rparr>
       \<and> convertMultiple registers (before @ rule # after) =
           convertMultiple registers before @ convertData registers rule
             # convertMultiple registers after"
  using assms by (simp add: convertData_def convertMultiple_def)

theorem convertData_catches_witness:
  "convertData_try [1234] ((basic_rule ''t'' 0 ''uint16'')\<lparr>decimalPlaces := Some 101\<rparr>)
     = Inl (ErrorObject ''toFixed() digits argument must be between 0 and 100'')
   \<and> res_valid (convertData [1234] ((basic_rule ''t'' 0 ''uint16'')\<lparr>decimalPlaces := Some 101\<rparr>)) = False
   \<and> res_error (convertData [1234] ((basic_rule ''t'' 0 ''uint16'')\<lparr>decimalPlaces := Some 101\<rparr>))
       = Some [Str ''toFixed() digits argument must be between 0 and 100'']
   \<and> map res_valid (convertMultiple [1234]
         ([basic_rule ''a'' 0 ''int16''] @ (basic_rule ''t'' 0 ''uint16'')\<lparr>decimalPlaces := Some 101\<rparr>
            # [basic_rule ''b'' 0 ''int16''])) = [True, False, True]"
proof -
  have h: "convertData_try [1234] ((basic_rule ''t'' 0 ''uint16'')\<lparr>decimalPlaces := Some 101\<rparr>)
     = Inl (ErrorObject ''toFixed() digits argument must be between 0 and 100'')"
    by (simp add: convertData_try_def basic_rule_def initial_result_def getRequiredRegisters_def
        js_slice_def decode_switch_def convertUint16_def js_index_def int_of_reg_def js_and_def
        js_int_def unit_step_def rounding_step_def toFixed_Number_def Let_def)
  have a: "res_valid (convertData [1234] (basic_rule ''a'' 0 ''int16''))"
    by (simp add: convertData_def convertData_try_def basic_rule_def initial_result_def
        getRequiredRegisters_def js_slice_def decode_switch_def convertInt16_def js_index_def
        js_int_def unit_step_def rounding_step_def validation_step_def Let_def)
  have b: "res_valid (convertData [1234] (basic_rule ''b'' 0 ''int16''))"
    by (simp add: convertData_def convertData_try_def basic_rule_def initial_result_def
        getRequiredRegisters_def js_slice_def decode_switch_def convertInt16_def js_index_def
        js_int_def unit_step_def rounding_step_def validation_step_def Let_def)
  show ?thesis
    using h a b
      convertData_catches [OF h, of "[basic_rule ''a'' 0 ''int16'']" "[basic_rule ''b'' 0 ''int16'']"]
    by (simp add: thrown_message_def convertMultiple_def)
qed

text \<open>
  C6. For every register array and every list of rules, \<open>convertMultiple\<close> returns
  one result per rule, in rule order; the i-th result is \<open>convertData\<close> of the register
  array and the i-th rule alone, so replacing any other rule leaves it unchanged
\<close>

theorem convertMultiple_one_result_per_rule:
  "length (convertMultiple registers rules) = length rules
   \<and> (\<forall>i < length rules. convertMultiple registers rules ! i = convertData registers (rules ! i))
   \<and> (\<forall>i < length rules. \<forall>j < length rules. \<forall>other. i \<noteq> j \<longrightarrow>
         convertMultiple registers (rules[j := other]) ! i = convertMultiple registers rules ! i)"
  by (simp add: convertMultiple_def)

theorem convertMultiple_one_result_per_rule_witness:
  "length (convertMultiple [100, 200]
      [basic_rule ''a'' 0 ''int16'', basic_rule ''b'' 5 ''int16'', basic_rule ''c'' 1 ''uint16'']) = 3
   \<and> map res_valid (convertMultiple [100, 200]
      [basic_rule ''a'' 0 ''int16'', basic_rule ''b'' 5 ''int16'', basic_rule ''c'' 1 ''uint16''])
       = [True, False, True]
   \<and> map res_value (convertMultiple [100, 200]
      [basic_rule ''a'' 0 ''int16'', basic_rule ''b'' 5 ''int16'', basic_rule ''c'' 1 ''uint16''])
       = [js_int 100, JNull, js_int 200]
   \<and> convertMultiple [100, 200]
      [basic_rule ''a'' 0 ''int16'', basic_rule ''b'' 5 ''int16'', basic_rule ''c'' 1 ''uint16''] ! 1
       = convertData [100, 200] (basic_rule ''b'' 5 ''int16'')
   \<and> res_error (convertData [100, 200] (basic_rule ''b'' 5 ''int16'')) = Some
         [Str ''Not enough registers available. Required: '', IntPart 1,
          Str '', Available: '', IntPart (- 3)]"
proof -
  have a: "convertData [100, 200] (basic_rule ''a'' 0 ''int16'')
             = (initial_result (basic_rule ''a'' 0 ''int16''))
                 \<lparr>res_value := js_int 100, originalValue := js_int 100, res_valid := True\<rparr>"
    by (simp add: convertData_def convertData_try_def basic_rule_def initial_result_def
        getRequiredRegisters_def js_slice_def decode_switch_def convertInt16_def js_index_def
        unit_step_def rounding_step_def validation_step_def Let_def)
  have b: "convertData [100, 200] (basic_rule ''b'' 5 ''int16'')
             = (initial_result (basic_rule ''b'' 5 ''int16''))
                 \<lparr>res_error := Some
                    [Str ''Not enough registers available. Required: '', IntPart 1,
                     Str '', Available: '', IntPart (- 3)]\<rparr>"
    by (simp add: convertData_def convertData_try_def basic_rule_def initial_result_def
        getRequiredRegisters_def Let_def)
  have c: "convertData [100, 200] (basic_rule ''c'' 1 ''uint16'')
             = (initial_result (basic_rule ''c'' 1 ''uint16''))
                 \<lparr>res_value := js_int 200, originalValue := js_int 200, res_valid := True\<rparr>"
    by (simp add: convertData_def convertData_try_def basic_rule_def initial_result_def
        getRequiredRegisters_def js_slice_def decode_switch_def convertUint16_def js_index_def
        int_of_reg_def js_and_def unit_step_def rounding_step_def validation_step_def Let_def)
  have m: "convertMultiple [100, 200]
      [basic_rule ''a'' 0 ''int16'', basic_rule ''b'' 5 ''int16'', basic_rule ''c'' 1 ''uint16'']
     = [convertData [100, 200] (basic_rule ''a'' 0 ''int16''),
        convertData [100, 200] (basic_rule ''b'' 5 ''int16''),
        convertData [100, 200] (basic_rule ''c'' 1 ''uint16'')]"
    by (simp add: convertMultiple_def)
  show ?thesis
    using convertMultiple_one_result_per_rule [of "[100, 200]"
        "[basic_rule ''a'' 0 ''int16'', basic_rule ''b'' 5 ''int16'', basic_rule ''c'' 1 ''uint16'']"]
    by (simp add: m a b c initial_result_def)
qed

section \<open>Register overlaps in the rule validator\<close>

lemma set_push_if: "x \<in> set (push_if c m) \<longleftrightarrow> c \<and> x = m"
  by (auto simp add: push_if_def)

lemma overlaps_with_mem:
  assumes "rangesOverlap a b" and "b \<in> set later"
  shows "range_name a @ '' and '' @ range_name b \<in> set (overlaps_with a later)"
  using assms by (auto simp add: overlaps_with_def)

lemma overlap_pairs_mem:
  assumes "rangesOverlap a b"
  shows "range_name a @ '' and '' @ range_name b \<in> set (overlap_pairs (pre @ a # mid @ b # post))"
proof (induction pre)
  case Nil
  show ?case using overlaps_with_mem [OF assms, of "mid @ b # post"] by simp
next
  case (Cons x pre)
  then show ?case by simp
qed

lemma js_join_mem:
  assumes "x \<in> set xs"
  shows "\<exists>pre post. js_join sep xs = pre @ x @ post"
  using assms
proof (induction sep xs rule: js_join.induct)
  case (1 sep)
  then show ?case by simp
next
  case (2 sep y)
  then have "js_join sep [y] = [] @ x @ []" by simp
  then show ?case by blast
next
  case (3 sep y z zs)
  show ?case
  proof (cases "x = y")
    case True
    then have "js_join sep (y # z # zs) = [] @ x @ (sep @ js_join sep (z # zs))" by simp
    then show ?thesis by blast
  next
    case False
    with 3 obtain pre post where "js_join sep (z # zs) = pre @ x @ post" by auto
    then have "js_join sep (y # z # zs) = (y @ sep @ pre) @ x @ post" by simp
    then show ?thesis by blast
  qed
qed

lemma split_at_two:
  assumes "i < j" and "j < length xs"
  shows "\<exists>pre mid post. xs = pre @ xs ! i # mid @ xs ! j # post"
proof -
  have i: "i < length xs" using assms by simp
  have xs: "xs = take i xs @ xs ! i # drop (Suc i) xs"
    using i by (simp add: id_take_nth_drop [symmetric])
  let ?d = "drop (Suc i) xs"
  have j': "j - Suc i < length ?d" using assms by simp
  have dj: "?d ! (j - Suc i) = xs ! j" using assms by simp
  have "?d = take (j - Suc i) ?d @ ?d ! (j - Suc i) # drop (Suc (j - Suc i)) ?d"
    using j' by (rule id_take_nth_drop)
  then have "?d = take (j - Suc i) ?d @ xs ! j # drop (Suc (j - Suc i)) ?d"
    by (simp only: dj)
  with xs have "xs = take i xs @ xs ! i # take (j - Suc i) ?d @ xs ! j # drop (Suc (j - Suc i)) ?d"
    by simp
  then show ?thesis by blast
qed

lemma checkRegisterOverlaps_mem:
  assumes "i < j" and "j < length rules"
    and "dataType (rules ! i) \<noteq> []" and "dataType (rules ! j) \<noteq> []"
    and "rangesOverlap (rule_range (rules ! i)) (rule_range (rules ! j))"
  shows "name (rules ! i) @ '' and '' @ name (rules ! j) \<in> set (checkRegisterOverlaps rules)"
proof -
  obtain pre mid post where xs: "rules = pre @ rules ! i # mid @ rules ! j # post"
    using split_at_two [OF assms(1,2)] by blast
  let ?f = "\<lambda>rs. map rule_range (filter (\<lambda>rule. dataType rule \<noteq> []) rs)"
  have "checkRegisterOverlaps rules =
          overlap_pairs (?f pre @ rule_range (rules ! i) # ?f mid @ rule_range (rules ! j) # ?f post)"
    using assms(3,4) by (subst xs) (simp add: checkRegisterOverlaps_def)
  moreover have "range_name (rule_range (rules ! i)) @ '' and '' @ range_name (rule_range (rules ! j))
      \<in> set (overlap_pairs (?f pre @ rule_range (rules ! i) # ?f mid @ rule_range (rules ! j) # ?f post))"
    using assms(5) by (rule overlap_pairs_mem)
  ultimately show ?thesis by (simp add: rule_range_def)
qed

lemma rule_errors_head:
  assumes "e \<in> set (errors (validateConversionRule trim rule index))"
  shows "hd e = Str ''Rule ''"
  using assms
  by (auto simp add: validateConversionRule_def Let_def set_push_if rule_message_def
      split: if_splits)

lemma rules_errors_head:
  assumes "e \<in> set (errors (validateConversionRules trim toLowerCase rules))"
  shows "hd e \<noteq> Str ''Register overlaps detected: ''"
proof (cases "rules = []")
  case True
  with assms show ?thesis by (simp add: validateConversionRules_def)
next
  case False
  with assms have "(\<exists>rule index. e \<in> set (errors (validateConversionRule trim rule index)))
      \<or> hd e = Str ''Duplicate conversion names found: ''"
    by (auto simp add: validateConversionRules_def Let_def set_push_if)
  then show ?thesis
    by (auto dest: rule_errors_head)
qed

lemma rules_valid_without_overlap_check:
  assumes "rules \<noteq> []"
    and "\<forall>k < length rules. valid (validateConversionRule trim (rules ! k) k)"
    and "duplicates_after [] (rule_names trim toLowerCase rules) = []"
  shows "valid (validateConversionRules trim toLowerCase rules)"
proof -
  have "errors (validateConversionRule trim rule index) = []"
    if "(rule, index) \<in> set (zip rules [0..<length rules])" for rule index
  proof -
    from that obtain k where "k < length rules" "rule = rules ! k" "index = k"
      by (auto simp add: set_zip)
    with assms(2) show ?thesis
      by (auto simp add: validateConversionRule_def Let_def)
  qed
  then have "concat (map errors (map (\<lambda>(rule, index). validateConversionRule trim rule index)
                 (zip rules [0..<length rules]))) = []"
    by auto
  with assms(1,3) show ?thesis
    by (simp add: validateConversionRules_def Let_def push_if_def)
qed

lemma footprint_of_data_type:
  assumes "dt \<in> data_types"
  shows "getRegistersNeeded dt = footprint_spec dt" and "1 \<le> footprint_spec dt"
  using assms by (auto simp add: data_types_def getRegistersNeeded_def footprint_spec_def)

lemma rangesOverlap_iff_windows_intersect:
  assumes "dataType a \<in> data_types" and "dataType b \<in> data_types"
  shows "rangesOverlap (rule_range a) (rule_range b) \<longleftrightarrow> window_spec a \<inter> window_spec b \<noteq> {}"
proof -
  let ?ea = "startRegister a + footprint_spec (dataType a) - 1"
  let ?eb = "startRegister b + footprint_spec (dataType b) - 1"
  have fa: "startRegister a \<le> ?ea" and fb: "startRegister b \<le> ?eb"
    using footprint_of_data_type(2) [OF assms(1)] footprint_of_data_type(2) [OF assms(2)]
    by simp_all
  have "rangesOverlap (rule_range a) (rule_range b)
          \<longleftrightarrow> startRegister a \<le> ?eb \<and> startRegister b \<le> ?ea"
    by (simp add: rangesOverlap_def rule_range_def footprint_of_data_type(1) [OF assms(1)]
        footprint_of_data_type(1) [OF assms(2)])
  also have "\<dots> \<longleftrightarrow> max (startRegister a) (startRegister b) \<le> min ?ea ?eb"
    using fa fb by auto
  also have "\<dots> \<longleftrightarrow> window_spec a \<inter> window_spec b \<noteq> {}"
    by (auto simp add: window_spec_def Int_atLeastAtMost)
  finally show ?thesis .
qed

lemma data_type_nonempty: "dt \<in> data_types \<Longrightarrow> dt \<noteq> []"
  by (auto simp add: data_types_def)

text \<open>
  C7. For every rule set and every two of its rules whose register windows
  \<open>[startRegister, startRegister + footprint - 1]\<close> intersect, with the footprint the
  specification gives to the rule's data type (the window of \<open>window_spec\<close>, for the eight
  data types a rule can have), the validation result carries the overlap warning, which
  names both rules; no error is an overlap message, and the result is valid whenever
  every rule is valid on its own and no name is duplicated. A float32 rule at register 0
  and an int16 rule at register 1 are reported as overlapping
\<close>

theorem overlap_is_a_warning_never_an_error:
  assumes "i < j" and "j < length rules"
    and "dataType (rules ! i) \<in> data_types" and "dataType (rules ! j) \<in> data_types"
    and "window_spec (rules ! i) \<inter> window_spec (rules ! j) \<noteq> {}"
  shows "name (rules ! i) @ '' and '' @ name (rules ! j) \<in> set (checkRegisterOverlaps rules)
       \<and> (\<exists>pre post.
             [Str ''Register overlaps detected: '',
              Str (pre @ name (rules ! i) @ '' and '' @ name (rules ! j) @ post)]
               \<in> set (warnings (validateConversionRules trim toLowerCase rules)))
       \<and> (\<forall>e \<in> set (errors (validateConversionRules trim toLowerCase rules)).
             hd e \<noteq> Str ''Register overlaps detected: '')
       \<and> ((\<forall>k < length rules. valid (validateConversionRule trim (rules ! k) k))
             \<and> duplicates_after [] (rule_names trim toLowerCase rules) = []
           \<longrightarrow> valid (validateConversionRules trim toLowerCase rules))"
proof -
  have ne: "rules \<noteq> []" using assms(2) by auto
  have ov: "rangesOverlap (rule_range (rules ! i)) (rule_range (rules ! j))"
    using assms(5) rangesOverlap_iff_windows_intersect [OF assms(3,4)] by simp
  have mem: "name (rules ! i) @ '' and '' @ name (rules ! j) \<in> set (checkRegisterOverlaps rules)"
    using assms(1,2) data_type_nonempty [OF assms(3)] data_type_nonempty [OF assms(4)] ov
    by (rule checkRegisterOverlaps_mem)
  then have "checkRegisterOverlaps rules \<noteq> []" by auto
  with ne have w: "[Str ''Register overlaps detected: '', Str (js_join '', '' (checkRegisterOverlaps rules))]
            \<in> set (warnings (validateConversionRules trim toLowerCase rules))"
    by (simp add: validateConversionRules_def Let_def push_if_def)
  obtain pre post where "js_join '', '' (checkRegisterOverlaps rules)
      = pre @ (name (rules ! i) @ '' and '' @ name (rules ! j)) @ post"
    using js_join_mem [OF mem] by blast
  with w have "\<exists>pre post.
             [Str ''Register overlaps detected: '',
              Str (pre @ name (rules ! i) @ '' and '' @ name (rules ! j) @ post)]
               \<in> set (warnings (validateConversionRules trim toLowerCase rules))"
    by auto
  with mem ne show ?thesis
    using rules_errors_head rules_valid_without_overlap_check by blast
qed

theorem overlap_is_a_warning_never_an_error_witness:
  "(0::nat) < 1 \<and> 1 < length [basic_rule ''A'' 0 ''float32'', basic_rule ''B'' 1 ''int16'']
   \<and> dataType (basic_rule ''A'' 0 ''float32'') \<in> data_types
   \<and> dataType (basic_rule ''B'' 1 ''int16'') \<in> data_types
   \<and> window_spec (basic_rule ''A'' 0 ''float32'') = {0..1}
   \<and> window_spec (basic_rule ''B'' 1 ''int16'') = {1..1}
   \<and> window_spec (basic_rule ''A'' 0 ''float32'') \<inter> window_spec (basic_rule ''B'' 1 ''int16'') \<noteq> {}
   \<and> checkRegisterOverlaps [basic_rule ''A'' 0 ''float32'', basic_rule ''B'' 1 ''int16''] = [''A and B'']
   \<and> validateConversionRules ascii_trim ascii_toLowerCase
         [basic_rule ''A'' 0 ''float32'', basic_rule ''B'' 1 ''int16'']
       = \<lparr>valid = True, errors = [],
          warnings = [[Str ''Register overlaps detected: '', Str ''A and B'']]\<rparr>"
proof -
  let ?rules = "[basic_rule ''A'' 0 ''float32'', basic_rule ''B'' 1 ''int16'']"
  have h1: "(0::nat) < 1" by simp
  have h2: "1 < length ?rules" by simp
  have h3: "dataType (?rules ! 0) \<in> data_types" by (simp add: basic_rule_def data_types_def)
  have h4: "dataType (?rules ! 1) \<in> data_types" by (simp add: basic_rule_def data_types_def)
  have wa: "window_spec (basic_rule ''A'' 0 ''float32'') = {0..1}"
    by (simp add: window_spec_def basic_rule_def footprint_spec_def)
  have wb: "window_spec (basic_rule ''B'' 1 ''int16'') = {1..1}"
    by (simp add: window_spec_def basic_rule_def footprint_spec_def)
  have h5: "window_spec (?rules ! 0) \<inter> window_spec (?rules ! 1) \<noteq> {}"
    by (simp add: wa wb)
  have ov: "checkRegisterOverlaps ?rules = [''A and B'']"
    by (simp add: checkRegisterOverlaps_def rule_range_def basic_rule_def getRegistersNeeded_def
        overlaps_with_def rangesOverlap_def)
  have va: "validateConversionRule ascii_trim (basic_rule ''A'' 0 ''float32'') 0
              = \<lparr>valid = True, errors = [], warnings = []\<rparr>"
    by (simp add: validateConversionRule_def basic_rule_def push_if_def ascii_trim_def
        ascii_whitespace_def Let_def)
  have vb: "validateConversionRule ascii_trim (basic_rule ''B'' 1 ''int16'') (Suc 0)
              = \<lparr>valid = True, errors = [], warnings = []\<rparr>"
    by (simp add: validateConversionRule_def basic_rule_def push_if_def ascii_trim_def
        ascii_whitespace_def Let_def)
  have nm: "rule_names ascii_trim ascii_toLowerCase ?rules = [''a'', ''b'']"
    by (simp add: rule_names_def basic_rule_def ascii_trim_def ascii_whitespace_def
        ascii_toLowerCase_def ascii_lower_char_def)
  have res: "validateConversionRules ascii_trim ascii_toLowerCase ?rules
       = \<lparr>valid = True, errors = [],
          warnings = [[Str ''Register overlaps detected: '', Str ''A and B'']]\<rparr>"
    by (simp add: validateConversionRules_def Let_def va vb nm ov push_if_def)
  show ?thesis
    using overlap_is_a_warning_never_an_error [OF h1 h2 h3 h4 h5,
        where trim = ascii_trim and toLowerCase = ascii_toLowerCase] h3 h4 h5 wa wb ov res
    by simp
qed

section \<open>A unit pair without a conversion\<close>










end
